theory Spec2Isabelle
  imports Main
begin

section \<open>The persisted schema (\<^verbatim>\<open>SCHEMA_TABLES_SQL\<close>)\<close>

text \<open>
  The program is a Streamlit script over a MySQL database. Its state is the content of
  the tables; every workflow is a short sequence of SQL statements. A table is the list of
  its rows in insertion order, a row is a record with one field per column, an
  \<^verbatim>\<open>ENUM\<close> column is a datatype, a nullable column an \<open>option\<close>.

  \<^item> A \<^verbatim>\<open>DATETIME\<close> is a number of seconds, a \<^verbatim>\<open>DATE\<close> a number of days;
    \<open>DATE\<close> is MySQL's \<^verbatim>\<open>DATE(...)\<close> of a datetime and \<^verbatim>\<open>CURDATE()\<close> is
    \<^verbatim>\<open>DATE(NOW())\<close>.
  \<^item> A \<^verbatim>\<open>DECIMAL(n,2)\<close> amount is an integer number of hundredths. The script
    converts \<^verbatim>\<open>price_per_unit\<close> with \<^verbatim>\<open>float(...)\<close> before it inserts it as
    \<^verbatim>\<open>total_amount\<close>; a \<^verbatim>\<open>DECIMAL(10,2)\<close> has at most ten significant digits, which a
    double carries exactly through the driver's \<^verbatim>\<open>repr\<close>, so the amount is unchanged.
  \<^item> Field names carry a short table prefix (\<open>b_status\<close>, \<open>o_status\<close>, \<open>p_status\<close>),
    since several tables share column names.
\<close>

type_synonym time = nat
type_synonym date = int
type_synonym money = int

definition DATE :: "time \<Rightarrow> date" where
  "DATE t = int (t div 86400)"

datatype batch_status = Available | Reserved | Sold | Expired | Quarantined

datatype order_status =
  Placed | Confirmed | Preparing | Shipped | Delivered | Cancelled | Refunded

datatype payment_status = Pending | Completed | Failed | Payment_refunded

datatype payment_method = Bank_transfer | Card | Upi | Cod | Wallet

datatype quality = Quality_A | Quality_B | Quality_C

datatype test_result = Test_pass | Test_fail | Test_pending

record blood_type_row =
  btype_id :: nat
  btype_code :: string

record retailer_row =
  r_retailer_id :: nat
  r_name :: string
  r_city :: "string option"

record donor_row =
  dn_donor_id :: nat
  dn_full_name :: string
  dn_phone :: "string option"
  dn_blood_type_id :: nat
  dn_created_at :: time

record donation_row =
  d_donation_id :: nat
  d_donor_id :: "nat option"
  d_retailer_id :: nat
  d_collected_at :: time
  d_volume_ml :: nat
  d_tested :: bool
  d_test_result :: test_result
  d_created_at :: time

record batch_row =
  b_batch_id :: nat
  b_donation_id :: "nat option"
  b_retailer_id :: nat
  b_blood_type_id :: nat
  b_quantity_ml :: nat
  b_unit_count :: nat
  b_quality :: quality
  b_status :: batch_status
  b_price_per_unit :: money
  b_collected_at :: "time option"
  b_expiry_date :: "date option"
  b_created_at :: time

record order_row =
  o_order_id :: nat
  o_customer_id :: nat
  o_retailer_id :: "nat option"
  o_total_amount :: money
  o_currency :: string
  o_status :: order_status
  o_placed_at :: time
  o_modified_at :: "time option"
  o_notes :: string

record order_item_row =
  oi_order_item_id :: nat
  oi_order_id :: nat
  oi_batch_id :: nat
  oi_blood_type_id :: nat
  oi_quantity_ml :: nat
  oi_unit_price :: money
  oi_subtotal :: money

record payment_row =
  p_payment_id :: nat
  p_order_id :: nat
  p_amount :: money
  p_method :: payment_method
  p_status :: payment_status
  p_txn_ref :: "string option"
  p_created_at :: time

text \<open>
  The \<^verbatim>\<open>AUTO_INCREMENT\<close> counters of the six tables the workflows insert into. InnoDB
  does not give a counter value back when a transaction rolls back, so the counters are
  kept apart from the rows.
\<close>

record auto_increment =
  next_donor_id :: nat
  next_donation_id :: nat
  next_batch_id :: nat
  next_order_id :: nat
  next_order_item_id :: nat
  next_payment_id :: nat

record db =
  blood_types :: "blood_type_row list"
  retailers :: "retailer_row list"
  donors :: "donor_row list"
  donations :: "donation_row list"
  inventory_batches :: "batch_row list"
  orders :: "order_row list"
  order_items :: "order_item_row list"
  payments :: "payment_row list"
  autoinc :: auto_increment

section \<open>The database as the script sees it\<close>

text \<open>
  Every call of the driver can raise (lost connection, lock timeout, constraint
  violation), and \<^verbatim>\<open>NOW()\<close> is read by the statement that contains it. Both are
  given by the environment, per call site: \<open>raises e c\<close> says that call \<open>c\<close> raises,
  \<open>clock e c\<close> is the time at which call \<open>c\<close> runs.
\<close>

datatype db_call =
    PO_connect | PO_select_batch | PO_insert_order | PO_insert_item
  | PO_insert_payment | PO_update_batch | PO_commit
  | Pay_select_orders | Pay_connect | Pay_update_order | Pay_update_payment | Pay_commit
  | Upd_update_order | Upd_select_items | Upd_update_batch
  | Don_connect | Don_select_donor | Don_insert_donor | Don_insert_donation
  | Don_insert_batch | Don_commit
  | Browse_select

record env =
  raises :: "db_call \<Rightarrow> bool"
  clock :: "db_call \<Rightarrow> time"

text \<open>
  A connection opened with \<^verbatim>\<open>autocommit=False\<close> works on its own copy of the rows;
  \<^verbatim>\<open>conn.commit()\<close> makes the copy the database, and a connection that is rolled
  back, closed or abandoned before that leaves the rows as they were. Only the counters
  already taken stay taken.
\<close>

definition rollback :: "db \<Rightarrow> db \<Rightarrow> db" where
  "rollback d w = d\<lparr>autoinc := autoinc w\<rparr>"

definition same_rows :: "db \<Rightarrow> db \<Rightarrow> bool" where
  "same_rows d d' \<longleftrightarrow> d'\<lparr>autoinc := autoinc d\<rparr> = d"

subsection \<open>Form input\<close>

text \<open>
  \<^verbatim>\<open>str.isdigit()\<close>: non-empty and digits only. A \<open>string\<close> is a list of bytes, so the digits
  are the ASCII ones. MySQL compares the numeric column with the digit string by value.
\<close>

definition digit_val :: "char \<Rightarrow> nat option" where
  "digit_val c =
     (let n = (of_char c :: nat) in if 48 \<le> n \<and> n \<le> 57 then Some (n - 48) else None)"

definition isdigit :: "string \<Rightarrow> bool" where
  "isdigit s \<longleftrightarrow> s \<noteq> [] \<and> list_all (\<lambda>c. digit_val c \<noteq> None) s"

definition to_number :: "string \<Rightarrow> nat" where
  "to_number s = foldl (\<lambda>acc c. 10 * acc + (case digit_val c of Some v \<Rightarrow> v | None \<Rightarrow> 0)) 0 s"

section \<open>Place Order (Customer Portal)\<close>

text \<open>
  What the form shows at the end: \<open>ValidationError\<close> is
  \<^verbatim>\<open>'Please provide a valid Batch ID.'\<close>, \<open>NotFound\<close> is \<^verbatim>\<open>'Batch not found'\<close>,
  \<open>NotAvailable s\<close> is \<^verbatim>\<open>'Batch not available (Status: s)'\<close>, \<open>PersistenceError\<close> is
  \<^verbatim>\<open>'Order failed: ...'\<close> and \<open>Order_placed oid\<close> is
  \<^verbatim>\<open>'Order oid placed successfully! It is now reserved.'\<close>.
\<close>

datatype place_result =
  ValidationError | NotFound | NotAvailable batch_status | PersistenceError | Order_placed nat

definition insert_order ::
  "time \<Rightarrow> nat \<Rightarrow> nat \<Rightarrow> money \<Rightarrow> order_status \<Rightarrow> string \<Rightarrow> db \<Rightarrow> db" where
  "insert_order t customer retailer amount st notes w =
     w\<lparr>orders := orders w @
          [\<lparr>o_order_id = next_order_id (autoinc w), o_customer_id = customer,
            o_retailer_id = Some retailer, o_total_amount = amount, o_currency = ''INR'',
            o_status = st, o_placed_at = t, o_modified_at = None, o_notes = notes\<rparr>],
       autoinc := (autoinc w)\<lparr>next_order_id := Suc (next_order_id (autoinc w))\<rparr>\<rparr>"

definition insert_order_item ::
  "nat \<Rightarrow> nat \<Rightarrow> nat \<Rightarrow> nat \<Rightarrow> money \<Rightarrow> money \<Rightarrow> db \<Rightarrow> db" where
  "insert_order_item oid bid btype qty unit_price subtotal w =
     w\<lparr>order_items := order_items w @
          [\<lparr>oi_order_item_id = next_order_item_id (autoinc w), oi_order_id = oid,
            oi_batch_id = bid, oi_blood_type_id = btype, oi_quantity_ml = qty,
            oi_unit_price = unit_price, oi_subtotal = subtotal\<rparr>],
       autoinc := (autoinc w)\<lparr>next_order_item_id := Suc (next_order_item_id (autoinc w))\<rparr>\<rparr>"

definition insert_payment ::
  "time \<Rightarrow> nat \<Rightarrow> money \<Rightarrow> payment_method \<Rightarrow> payment_status \<Rightarrow> db \<Rightarrow> db" where
  "insert_payment t oid amount method st w =
     w\<lparr>payments := payments w @
          [\<lparr>p_payment_id = next_payment_id (autoinc w), p_order_id = oid, p_amount = amount,
            p_method = method, p_status = st, p_txn_ref = None, p_created_at = t\<rparr>],
       autoinc := (autoinc w)\<lparr>next_payment_id := Suc (next_payment_id (autoinc w))\<rparr>\<rparr>"

definition update_batch_status :: "batch_status \<Rightarrow> nat \<Rightarrow> db \<Rightarrow> db" where
  "update_batch_status st bid w =
     w\<lparr>inventory_batches :=
          map (\<lambda>b. if b_batch_id b = bid then b\<lparr>b_status := st\<rparr> else b) (inventory_batches w)\<rparr>"

definition select_batch :: "nat \<Rightarrow> db \<Rightarrow> batch_row option" where
  "select_batch bid w = find (\<lambda>b. b_batch_id b = bid) (inventory_batches w)"

text \<open>
  The handler of the \<^verbatim>\<open>order_form\<close>. The four writes run on the connection's copy
  \<open>w1\<close> .. \<open>w4\<close>; only \<^verbatim>\<open>conn.commit()\<close> returns it. An exception leaves the
  \<^verbatim>\<open>try\<close> block before the commit, and the handler only reports it. The notification
  of the retailer after the commit is best effort and touches no table.
\<close>

definition place_order :: "env \<Rightarrow> db \<Rightarrow> nat \<Rightarrow> string \<Rightarrow> string \<Rightarrow> place_result \<times> db" where
  "place_order e d user_id batch_id notes =
     (if batch_id = [] \<or> \<not> isdigit batch_id then (ValidationError, d)
      else if raises e PO_connect \<or> raises e PO_select_batch then (PersistenceError, d)
      else
        (case select_batch (to_number batch_id) d of
           None \<Rightarrow> (NotFound, d)
         | Some row \<Rightarrow>
             if b_status row \<noteq> Available then (NotAvailable (b_status row), d)
             else
               let total_amount = b_price_per_unit row in
               if raises e PO_insert_order then (PersistenceError, d)
               else
                 let w1 = insert_order (clock e PO_insert_order) user_id (b_retailer_id row)
                            total_amount Placed notes d;
                     oid = next_order_id (autoinc d)
                 in
                 if raises e PO_insert_item then (PersistenceError, rollback d w1)
                 else
                   let w2 = insert_order_item oid (b_batch_id row) (b_blood_type_id row)
                              (b_quantity_ml row) (b_price_per_unit row) (b_price_per_unit row) w1
                   in
                   if raises e PO_insert_payment then (PersistenceError, rollback d w2)
                   else
                     let w3 = insert_payment (clock e PO_insert_payment) oid total_amount
                                Bank_transfer Pending w2
                     in
                     if raises e PO_update_batch then (PersistenceError, rollback d w3)
                     else
                       let w4 = update_batch_status Reserved (to_number batch_id) w3 in
                       if raises e PO_commit then (PersistenceError, rollback d w4)
                       else (Order_placed oid, w4)))"

section \<open>Cached reads: \<^verbatim>\<open>fetch_df\<close>\<close>

text \<open>
  \<^verbatim>\<open>fetch_df\<close> is decorated with \<^verbatim>\<open>@st.cache_data(ttl=30)\<close>: a result is stored
  under the query text and its parameters, and for thirty seconds every call with the same
  text and parameters gets the stored result without asking the database. No write of the
  script clears an entry. \<open>fresh\<close> is what the query returns when it is run now; an
  exception is not stored.
\<close>

type_synonym ('k, 'r) cached = "'k \<Rightarrow> (time \<times> 'r) option"

definition fetch_df ::
  "env \<Rightarrow> db_call \<Rightarrow> ('k, 'r) cached \<Rightarrow> 'k \<Rightarrow> 'r \<Rightarrow> 'r option \<times> ('k, 'r) cached" where
  "fetch_df e c ch k fresh =
     (let miss = (if raises e c then (None, ch)
                  else (Some fresh, ch(k \<mapsto> (clock e c, fresh))))
      in case ch k of
           None \<Rightarrow> miss
         | Some (t, r) \<Rightarrow> if clock e c < t + 30 then (Some r, ch) else miss)"

subsection \<open>The browse query\<close>

record browse_row =
  br_batch_id :: nat
  br_retailer_id :: nat
  br_retailer_name :: string
  br_city :: "string option"
  br_blood_type :: string
  br_quantity_ml :: nat
  br_unit_count :: nat
  br_quality :: quality
  br_price_per_unit :: money
  br_expiry_date :: "date option"

text \<open>
  The three optional conditions the form appends to the query: a blood type other than
  \<^verbatim>\<open>'All'\<close>, a non-empty city, a non-zero maximal price in rupees. They are also the
  parameters under which \<^verbatim>\<open>fetch_df\<close> stores the result.
\<close>

record browse_filter =
  f_blood_type :: "string option"
  f_city :: "string option"
  f_max_price :: "nat option"

definition browse_form :: "string \<Rightarrow> string \<Rightarrow> nat \<Rightarrow> browse_filter" where
  "browse_form sel_btype city max_price =
     \<lparr>f_blood_type = (if sel_btype \<noteq> ''All'' then Some sel_btype else None),
      f_city = (if city \<noteq> [] then Some city else None),
      f_max_price = (if max_price \<noteq> 0 then Some max_price else None)\<rparr>"

text \<open>
  The two joins, the \<^verbatim>\<open>WHERE\<close> clause and the \<^verbatim>\<open>ORDER BY bt.code, i.price_per_unit\<close>.
  What \<^verbatim>\<open>LIKE\<close> matches and how codes are ordered depend on the collation of the
  columns, which is the server's: \<open>like c pat\<close> stands for \<^verbatim>\<open>c LIKE '%pat%'\<close> and
  \<open>weight\<close> for the rank of a code in the collation. A \<^verbatim>\<open>NULL\<close> city matches nothing.
\<close>

definition browse_where :: "date \<Rightarrow> batch_row \<Rightarrow> bool" where
  "browse_where today i \<longleftrightarrow>
     b_status i = Available \<and>
     (case b_expiry_date i of None \<Rightarrow> True | Some x \<Rightarrow> today \<le> x)"

definition browse_filtered ::
  "(string \<Rightarrow> string \<Rightarrow> bool) \<Rightarrow> browse_filter \<Rightarrow> batch_row \<Rightarrow> retailer_row \<Rightarrow> blood_type_row \<Rightarrow> bool" where
  "browse_filtered like f i r bt \<longleftrightarrow>
     (case f_blood_type f of None \<Rightarrow> True | Some code \<Rightarrow> btype_code bt = code) \<and>
     (case f_city f of None \<Rightarrow> True
      | Some pat \<Rightarrow> (case r_city r of None \<Rightarrow> False | Some c \<Rightarrow> like c pat)) \<and>
     (case f_max_price f of None \<Rightarrow> True | Some m \<Rightarrow> b_price_per_unit i \<le> 100 * int m)"

definition browse_query ::
  "(string \<Rightarrow> string \<Rightarrow> bool) \<Rightarrow> (string \<Rightarrow> nat) \<Rightarrow> date \<Rightarrow> browse_filter \<Rightarrow> db \<Rightarrow> browse_row list" where
  "browse_query like weight today f d =
     sort_key (\<lambda>x. weight (br_blood_type x)) (sort_key br_price_per_unit
       [\<lparr>br_batch_id = b_batch_id i, br_retailer_id = r_retailer_id r,
         br_retailer_name = r_name r, br_city = r_city r, br_blood_type = btype_code bt,
         br_quantity_ml = b_quantity_ml i, br_unit_count = b_unit_count i,
         br_quality = b_quality i, br_price_per_unit = b_price_per_unit i,
         br_expiry_date = b_expiry_date i\<rparr>.
        i \<leftarrow> inventory_batches d,
        r \<leftarrow> retailers d, b_retailer_id i = r_retailer_id r,
        bt \<leftarrow> blood_types d, b_blood_type_id i = btype_id bt,
        browse_where today i, browse_filtered like f i r bt])"

subsection \<open>The order history of a customer\<close>

record order_view =
  v_order :: order_row
  v_payment_status :: "payment_status option"
  v_payment_id :: "nat option"

definition q_orders :: "nat \<Rightarrow> db \<Rightarrow> order_view list" where
  "q_orders customer d =
     rev (sort_key (\<lambda>v. o_placed_at (v_order v))
       (concat (map (\<lambda>od.
          (case filter (\<lambda>p. p_order_id p = o_order_id od) (payments d) of
             [] \<Rightarrow> [\<lparr>v_order = od, v_payment_status = None, v_payment_id = None\<rparr>]
           | ps \<Rightarrow> map (\<lambda>p. \<lparr>v_order = od, v_payment_status = Some (p_status p),
                               v_payment_id = Some (p_payment_id p)\<rparr>) ps))
          (filter (\<lambda>od. o_customer_id od = customer) (orders d)))))"

subsection \<open>The batches of an order\<close>

definition select_item_batches :: "nat \<Rightarrow> db \<Rightarrow> nat list" where
  "select_item_batches oid d = map oi_batch_id (filter (\<lambda>x. oi_order_id x = oid) (order_items d))"

text \<open>The stored results, one store per query text.\<close>

record cache =
  browse_cache :: "(browse_filter, browse_row list) cached"
  orders_cache :: "(nat, order_view list) cached"
  items_cache :: "(string, nat list) cached"

definition empty_cache :: cache where
  "empty_cache = \<lparr>browse_cache = Map.empty, orders_cache = Map.empty, items_cache = Map.empty\<rparr>"

definition browse :: 
  "(string \<Rightarrow> string \<Rightarrow> bool) \<Rightarrow> (string \<Rightarrow> nat) \<Rightarrow> env \<Rightarrow> cache \<Rightarrow> db \<Rightarrow> string \<Rightarrow> string \<Rightarrow> nat
     \<Rightarrow> browse_row list option \<times> cache" where
  "browse like weight e ch d sel_btype city max_price =
     (let f = browse_form sel_btype city max_price;
          (inv, bc) = fetch_df e Browse_select (browse_cache ch) f
                        (browse_query like weight (DATE (clock e Browse_select)) f d)
      in (inv, ch\<lparr>browse_cache := bc\<rparr>))"

section \<open>Simulate Pay Now (Customer Portal)\<close>

text \<open>
  The two statements of the payment transaction:
  \<^verbatim>\<open>UPDATE orders SET status='confirmed', modified_at=NOW() WHERE order_id=%s\<close> and
  \<^verbatim>\<open>UPDATE payments SET status='completed', method='upi' WHERE payment_id=%s\<close>.
\<close>

definition confirm_order :: "time \<Rightarrow> nat \<Rightarrow> db \<Rightarrow> db" where
  "confirm_order t oid w =
     w\<lparr>orders := map (\<lambda>x. if o_order_id x = oid
                              then x\<lparr>o_status := Confirmed, o_modified_at := Some t\<rparr> else x)
                      (orders w)\<rparr>"

definition complete_payment :: "nat \<Rightarrow> db \<Rightarrow> db" where
  "complete_payment pid w =
     w\<lparr>payments := map (\<lambda>x. if p_payment_id x = pid
                                then x\<lparr>p_status := Completed, p_method := Upi\<rparr> else x)
                        (payments w)\<rparr>"

text \<open>
  \<open>Payment_successful\<close> and \<open>Payment_failed\<close> are the two messages of the handler.
  \<open>No_button\<close>: the page shows no \<^verbatim>\<open>Pay Now\<close> button for the order, so nothing runs.
  \<open>Page_error\<close>: an exception no handler of the script catches (the read of the order
  history is outside every \<^verbatim>\<open>try\<close>, and a failed \<^verbatim>\<open>get_conn\<close> leaves
  \<^verbatim>\<open>conn\<close> unbound for the handler's \<^verbatim>\<open>conn.rollback()\<close>).
\<close>

datatype pay_result = Payment_successful | Payment_failed | No_button | Page_error

text \<open>
  The transaction behind the button of one row of the order history. A row without a
  payment has no \<^verbatim>\<open>payment_id\<close> to send, and the driver refuses the parameter.
\<close>

definition pay_now :: "env \<Rightarrow> db \<Rightarrow> order_view \<Rightarrow> pay_result \<times> db" where
  "pay_now e d row =
     (if raises e Pay_connect then (Page_error, d)
      else if raises e Pay_update_order then (Payment_failed, d)
      else
        let w1 = confirm_order (clock e Pay_update_order) (o_order_id (v_order row)) d in
        if raises e Pay_update_payment then (Payment_failed, rollback d w1)
        else
          (case v_payment_id row of
             None \<Rightarrow> (Payment_failed, rollback d w1)
           | Some pid \<Rightarrow>
               let w2 = complete_payment pid w1 in
               if raises e Pay_commit then (Payment_failed, rollback d w2)
               else (Payment_successful, w2)))"

text \<open>
  The button is drawn for a row only if
  \<^verbatim>\<open>row['status'] == 'placed' and row['payment_status'] == 'pending'\<close>.
\<close>

definition pay_button :: "order_view \<Rightarrow> bool" where
  "pay_button row \<longleftrightarrow> o_status (v_order row) = Placed \<and> v_payment_status row = Some Pending"

text \<open>
  The tab reads the order history of the signed-in customer through \<^verbatim>\<open>fetch_df\<close>,
  outside every \<^verbatim>\<open>try\<close>.
\<close>

definition my_orders :: "env \<Rightarrow> cache \<Rightarrow> db \<Rightarrow> nat \<Rightarrow> order_view list option \<times> cache" where
  "my_orders e ch d user_id =
     (let (res, oc) = fetch_df e Pay_select_orders (orders_cache ch) user_id (q_orders user_id d)
      in (res, ch\<lparr>orders_cache := oc\<rparr>))"

text \<open>
  A click on the button of order \<open>oid\<close> reruns the script: the order history is read
  again, the rows are drawn in order, and the transaction runs at the first row of that
  order which draws the button.
\<close>

definition pay_now_click :: "env \<Rightarrow> cache \<Rightarrow> db \<Rightarrow> nat \<Rightarrow> nat \<Rightarrow> pay_result \<times> cache \<times> db" where
  "pay_now_click e ch d user_id oid =
     (let (res, ch') = my_orders e ch d user_id
      in case res of
           None \<Rightarrow> (Page_error, ch', d)
         | Some rows \<Rightarrow>
             (case find (\<lambda>row. o_order_id (v_order row) = oid \<and> pay_button row) rows of
                None \<Rightarrow> (No_button, ch', d)
              | Some row \<Rightarrow> (let (r, d') = pay_now e d row in (r, ch', d'))))"

section \<open>Update Order Status (Retailer Dashboard)\<close>

text \<open>
  \<^verbatim>\<open>execute\<close> opens a connection with \<^verbatim>\<open>autocommit=True\<close>, runs one statement and
  closes the connection: the statement is committed when it returns.
  \<^verbatim>\<open>UPDATE orders SET status=%s, modified_at=NOW() WHERE order_id=%s AND retailer_id=%s\<close>
  changes no row when the retailer of the order is another one or \<^verbatim>\<open>NULL\<close>.
\<close>

definition set_order_status :: "time \<Rightarrow> order_status \<Rightarrow> nat \<Rightarrow> nat \<Rightarrow> db \<Rightarrow> db" where
  "set_order_status t st oid rid w =
     w\<lparr>orders := map (\<lambda>x. if o_order_id x = oid \<and> o_retailer_id x = Some rid
                              then x\<lparr>o_status := st, o_modified_at := Some t\<rparr> else x)
                      (orders w)\<rparr>"

text \<open>
  \<open>Status_updated\<close> is \<^verbatim>\<open>'Order .. status updated to ..'\<close>, \<open>Cancelled_restocked b\<close> is
  \<^verbatim>\<open>'Order .. cancelled and batch b restocked.'\<close>, \<open>Update_failed\<close> is
  \<^verbatim>\<open>'Failed to update order: ..'\<close>, \<open>Invalid_order_id\<close> is \<^verbatim>\<open>'Invalid Order ID'\<close>;
  with \<open>No_message\<close> the form shows nothing (a cancellation that finds no item).
\<close>

datatype update_result =
  Invalid_order_id | Status_updated | Cancelled_restocked nat | No_message | Update_failed

text \<open>
  The handler of the \<^verbatim>\<open>update_order_form\<close> for the signed-in retailer \<open>rid\<close>. The
  selectbox offers \<open>Confirmed\<close>, \<open>Preparing\<close>, \<open>Shipped\<close>, \<open>Delivered\<close> and
  \<open>Cancelled\<close>. \<open>d1\<close> is the database after the first \<^verbatim>\<open>execute\<close>.
\<close>

definition update_order_status ::
  "env \<Rightarrow> cache \<Rightarrow> db \<Rightarrow> nat \<Rightarrow> string \<Rightarrow> order_status \<Rightarrow> update_result \<times> cache \<times> db" where
  "update_order_status e ch d rid order_id new_status =
     (if \<not> isdigit order_id then (Invalid_order_id, ch, d)
      else if raises e Upd_update_order then (Update_failed, ch, d)
      else
        let d1 = set_order_status (clock e Upd_update_order) new_status (to_number order_id) rid d in
        if new_status = Cancelled then
          (let (res, ic) = fetch_df e Upd_select_items (items_cache ch) order_id
                             (select_item_batches (to_number order_id) d1);
               ch' = ch\<lparr>items_cache := ic\<rparr>
           in case res of
                None \<Rightarrow> (Update_failed, ch', d1)
              | Some [] \<Rightarrow> (No_message, ch', d1)
              | Some (batch_id_to_restock # _) \<Rightarrow>
                  if raises e Upd_update_batch then (Update_failed, ch', d1)
                  else (Cancelled_restocked batch_id_to_restock, ch',
                        update_batch_status Available batch_id_to_restock d1))
        else (Status_updated, ch, d1))"

section \<open>Record Donation (Retailer Dashboard)\<close>

definition insert_donor :: "time \<Rightarrow> string \<Rightarrow> string \<Rightarrow> nat \<Rightarrow> db \<Rightarrow> db" where
  "insert_donor t full_name phone btype w =
     w\<lparr>donors := donors w @
          [\<lparr>dn_donor_id = next_donor_id (autoinc w), dn_full_name = full_name,
            dn_phone = Some phone, dn_blood_type_id = btype, dn_created_at = t\<rparr>],
       autoinc := (autoinc w)\<lparr>next_donor_id := Suc (next_donor_id (autoinc w))\<rparr>\<rparr>"

definition insert_donation :: "time \<Rightarrow> nat \<Rightarrow> nat \<Rightarrow> nat \<Rightarrow> db \<Rightarrow> db" where
  "insert_donation t did rid volume w =
     w\<lparr>donations := donations w @
          [\<lparr>d_donation_id = next_donation_id (autoinc w), d_donor_id = Some did,
            d_retailer_id = rid, d_collected_at = t, d_volume_ml = volume, d_tested = True,
            d_test_result = Test_pass, d_created_at = t\<rparr>],
       autoinc := (autoinc w)\<lparr>next_donation_id := Suc (next_donation_id (autoinc w))\<rparr>\<rparr>"

text \<open>
  \<^verbatim>\<open>INSERT INTO inventory_batches (...) VALUES (%s,%s,%s,%s,1,%s,%s,%s,NOW(),
  DATE_ADD(CURDATE(), INTERVAL 35 DAY))\<close> with quality \<^verbatim>\<open>'A'\<close> and status
  \<^verbatim>\<open>'available'\<close>.
\<close>

definition insert_donated_batch :: "time \<Rightarrow> nat \<Rightarrow> nat \<Rightarrow> nat \<Rightarrow> nat \<Rightarrow> money \<Rightarrow> db \<Rightarrow> db" where
  "insert_donated_batch t donation rid btype volume price w =
     w\<lparr>inventory_batches := inventory_batches w @
          [\<lparr>b_batch_id = next_batch_id (autoinc w), b_donation_id = Some donation,
            b_retailer_id = rid, b_blood_type_id = btype, b_quantity_ml = volume,
            b_unit_count = 1, b_quality = Quality_A, b_status = Available,
            b_price_per_unit = price, b_collected_at = Some t,
            b_expiry_date = Some (DATE t + 35), b_created_at = t\<rparr>],
       autoinc := (autoinc w)\<lparr>next_batch_id := Suc (next_batch_id (autoinc w))\<rparr>\<rparr>"

definition select_donor :: "string \<Rightarrow> db \<Rightarrow> donor_row option" where
  "select_donor phone w = find (\<lambda>x. dn_phone x = Some phone) (donors w)"

text \<open>
  \<open>Donor_required\<close> is \<^verbatim>\<open>'Donor name and phone required'\<close>, \<open>Donation_failed\<close> is
  \<^verbatim>\<open>'Failed to record donation: ..'\<close> after \<^verbatim>\<open>conn.rollback()\<close>, \<open>Donation_recorded\<close>
  is \<^verbatim>\<open>'Donation recorded and added to inventory'\<close>; \<^verbatim>\<open>get_conn\<close> is called before
  the \<^verbatim>\<open>try\<close>, so its exception is not caught (\<open>Donation_uncaught\<close>).
\<close>

datatype donation_result = Donor_required | Donation_failed | Donation_uncaught | Donation_recorded

text \<open>
  The handler of the \<^verbatim>\<open>donation_form\<close> for the signed-in retailer \<open>rid\<close>: name and
  phone as typed (stripped), the id of the blood type chosen in the selectbox, the volume
  and the price of the batch. \<open>w0\<close> is the connection's copy after the donor is found or
  inserted, \<open>did\<close> the donor's id.
\<close>

definition record_donation ::
  "env \<Rightarrow> db \<Rightarrow> nat \<Rightarrow> string \<Rightarrow> string \<Rightarrow> nat \<Rightarrow> nat \<Rightarrow> money \<Rightarrow> donation_result \<times> db" where
  "record_donation e d rid donor_name donor_phone bt_id volume price =
     (if donor_name = [] \<or> donor_phone = [] then (Donor_required, d)
      else if raises e Don_connect then (Donation_uncaught, d)
      else if raises e Don_select_donor then (Donation_failed, d)
      else
        let donor_row = select_donor donor_phone d in
        if donor_row = None \<and> raises e Don_insert_donor then (Donation_failed, d)
        else
          let (did, w0) =
                (case donor_row of
                   Some row \<Rightarrow> (dn_donor_id row, d)
                 | None \<Rightarrow> (next_donor_id (autoinc d),
                            insert_donor (clock e Don_insert_donor) donor_name donor_phone bt_id d))
          in
          if raises e Don_insert_donation then (Donation_failed, rollback d w0)
          else
            let w1 = insert_donation (clock e Don_insert_donation) did rid volume w0;
                donation_id = next_donation_id (autoinc w0)
            in
            if raises e Don_insert_batch then (Donation_failed, rollback d w1)
            else
              let w2 = insert_donated_batch (clock e Don_insert_batch) donation_id rid bt_id
                         volume price w1
              in
              if raises e Don_commit then (Donation_failed, rollback d w2)
              else (Donation_recorded, w2))"

section \<open>A small database\<close>

text \<open>
  The states and environments at which the theorems below are run. \<open>quiet t\<close> is a
  database that answers every call, at time \<open>t\<close>; \<open>failing c t\<close> raises at call \<open>c\<close>
  only; \<open>at_times f\<close> answers every call, call \<open>c\<close> at time \<open>f c\<close>.
\<close>

definition quiet :: "time \<Rightarrow> env" where
  "quiet t = \<lparr>raises = (\<lambda>c. False), clock = (\<lambda>c. t)\<rparr>"

definition failing :: "db_call \<Rightarrow> time \<Rightarrow> env" where
  "failing c t = \<lparr>raises = (\<lambda>x. x = c), clock = (\<lambda>x. t)\<rparr>"

text \<open>
  \<open>shop\<close>: retailers 10 and 20, one known donor, batch 7 of retailer 10 available at
  2000.00 and batch 8 reserved; no order yet.
\<close>

definition batch7 :: batch_row where
  "batch7 = \<lparr>b_batch_id = 7, b_donation_id = None, b_retailer_id = 10, b_blood_type_id = 1,
     b_quantity_ml = 450, b_unit_count = 1, b_quality = Quality_A, b_status = Available,
     b_price_per_unit = 200000, b_collected_at = Some 0, b_expiry_date = Some 35,
     b_created_at = 0\<rparr>"

definition batch8 :: batch_row where
  "batch8 = \<lparr>b_batch_id = 8, b_donation_id = None, b_retailer_id = 20, b_blood_type_id = 1,
     b_quantity_ml = 450, b_unit_count = 1, b_quality = Quality_B, b_status = Reserved,
     b_price_per_unit = 150000, b_collected_at = Some 0, b_expiry_date = None,
     b_created_at = 0\<rparr>"

definition shop :: db where
  "shop = \<lparr>blood_types = [\<lparr>btype_id = 1, btype_code = ''O+''\<rparr>],
     retailers = [\<lparr>r_retailer_id = 10, r_name = ''City Blood Bank'', r_city = Some ''Pune''\<rparr>,
                  \<lparr>r_retailer_id = 20, r_name = ''Lifeline'', r_city = None\<rparr>],
     donors = [\<lparr>dn_donor_id = 1, dn_full_name = ''Asha'', dn_phone = Some ''+911234'',
                dn_blood_type_id = 1, dn_created_at = 0\<rparr>],
     donations = [],
     inventory_batches = [batch7, batch8],
     orders = [], order_items = [], payments = [],
     autoinc = \<lparr>next_donor_id = 2, next_donation_id = 1, next_batch_id = 9,
                next_order_id = 1, next_order_item_id = 1, next_payment_id = 1\<rparr>\<rparr>"

text \<open>
  \<open>sold\<close>: \<open>shop\<close> after customer 5 has placed order 1 on batch 7 at time 100.
\<close>

definition order1 :: order_row where
  "order1 = \<lparr>o_order_id = 1, o_customer_id = 5, o_retailer_id = Some 10,
     o_total_amount = 200000, o_currency = ''INR'', o_status = Placed, o_placed_at = 100,
     o_modified_at = None, o_notes = ''urgent''\<rparr>"

definition item1 :: order_item_row where
  "item1 = \<lparr>oi_order_item_id = 1, oi_order_id = 1, oi_batch_id = 7, oi_blood_type_id = 1,
     oi_quantity_ml = 450, oi_unit_price = 200000, oi_subtotal = 200000\<rparr>"

definition payment1 :: payment_row where
  "payment1 = \<lparr>p_payment_id = 1, p_order_id = 1, p_amount = 200000, p_method = Bank_transfer,
     p_status = Pending, p_txn_ref = None, p_created_at = 100\<rparr>"

definition sold :: db where
  "sold = shop\<lparr>inventory_batches := [batch7\<lparr>b_status := Reserved\<rparr>, batch8],
            orders := [order1], order_items := [item1], payments := [payment1],
            autoinc := \<lparr>next_donor_id = 2, next_donation_id = 1, next_batch_id = 9,
                        next_order_id = 2, next_order_item_id = 2, next_payment_id = 2\<rparr>\<rparr>"

section \<open>Properties of order placement\<close>

lemmas example_defs =
  quiet_def failing_def shop_def sold_def batch7_def batch8_def order1_def item1_def
  payment1_def empty_cache_def

lemmas input_defs = isdigit_def to_number_def digit_val_def

lemmas place_defs =
  place_order_def select_batch_def insert_order_def insert_order_item_def insert_payment_def
  update_batch_status_def rollback_def

lemma select_batch_id: "select_batch n d = Some B \<Longrightarrow> b_batch_id B = n"
  by (auto simp: select_batch_def find_Some_iff)

lemma find_map_status:
  "find (\<lambda>b. b_batch_id b = n) (map (\<lambda>b. if b_batch_id b = n then b\<lparr>b_status := s\<rparr> else b) xs)
     = map_option (\<lambda>b. b\<lparr>b_status := s\<rparr>) (find (\<lambda>b. b_batch_id b = n) xs)"
  by (induction xs) auto

text \<open>
  C1. A placement attempt that names a batch whose status is not \<open>Available\<close> ends with
  \<open>NotAvailable\<close>, and one that names no existing batch ends with \<open>NotFound\<close>; in both
  cases the database returned is the database given: no status changes and no row of any
  table is added. (The id typed is a digit string and the connection and the
  \<^verbatim>\<open>SELECT\<close> do not raise; otherwise the form shows another message.)
\<close>

theorem place_order_unavailable:
  assumes "isdigit batch_id" and "\<not> raises e PO_connect" and "\<not> raises e PO_select_batch"
  shows "(\<forall>B. select_batch (to_number batch_id) d = Some B \<and> b_status B \<noteq> Available \<longrightarrow>
            place_order e d user_id batch_id notes = (NotAvailable (b_status B), d)) \<and>
         (select_batch (to_number batch_id) d = None \<longrightarrow>
            place_order e d user_id batch_id notes = (NotFound, d))"
  using assms by (auto simp: place_order_def isdigit_def)

theorem place_order_unavailable_witness:
  "isdigit ''8'' \<and> isdigit ''9'' \<and>
   \<not> raises (quiet 100) PO_connect \<and> \<not> raises (quiet 100) PO_select_batch \<and>
   select_batch (to_number ''8'') shop = Some batch8 \<and> b_status batch8 = Reserved \<and>
   select_batch (to_number ''9'') shop = None \<and>
   place_order (quiet 100) shop 5 ''8'' ''urgent'' = (NotAvailable Reserved, shop) \<and>
   place_order (quiet 100) shop 5 ''9'' ''urgent'' = (NotFound, shop)"
proof -
  have d8: "isdigit ''8''" and d9: "isdigit ''9''"
    by (simp_all add: input_defs)
  have q1: "\<not> raises (quiet 100) PO_connect" and q2: "\<not> raises (quiet 100) PO_select_batch"
    by (simp_all add: quiet_def)
  have s8: "select_batch (to_number ''8'') shop = Some batch8" and st8: "b_status batch8 = Reserved"
    and s9: "select_batch (to_number ''9'') shop = None"
    by (simp_all add: select_batch_def input_defs shop_def batch7_def batch8_def)
  from place_order_unavailable [OF d8 q1 q2, of shop 5 "''urgent''"] s8 st8
  have r8: "place_order (quiet 100) shop 5 ''8'' ''urgent'' = (NotAvailable Reserved, shop)"
    by simp
  from place_order_unavailable [OF d9 q1 q2, of shop 5 "''urgent''"] s9
  have r9: "place_order (quiet 100) shop 5 ''9'' ''urgent'' = (NotFound, shop)"
    by simp
  from d8 d9 q1 q2 s8 st8 s9 r8 r9 show ?thesis by simp
qed

text \<open>
  C2. Whenever a placement by a customer succeeds, the batch named was available, and the
  new database is the old one with exactly: one more order, of that customer and of the
  batch's retailer, for the batch's price, \<open>Placed\<close>; one more order item of that order and
  that batch, with unit price and subtotal the batch's price; one more payment of that
  order, for the same amount, by \<open>Bank_transfer\<close>, \<open>Pending\<close>; and the batch \<open>Reserved\<close>.
\<close>

theorem place_order_success:
  assumes "place_order e d customer batch_id notes = (Order_placed oid, d')"
  shows "\<exists>B. select_batch (to_number batch_id) d = Some B \<and> b_status B = Available \<and>
           oid = next_order_id (autoinc d) \<and>
           orders d' = orders d @
             [\<lparr>o_order_id = oid, o_customer_id = customer, o_retailer_id = Some (b_retailer_id B),
               o_total_amount = b_price_per_unit B, o_currency = ''INR'', o_status = Placed,
               o_placed_at = clock e PO_insert_order, o_modified_at = None, o_notes = notes\<rparr>] \<and>
           order_items d' = order_items d @
             [\<lparr>oi_order_item_id = next_order_item_id (autoinc d), oi_order_id = oid,
               oi_batch_id = b_batch_id B, oi_blood_type_id = b_blood_type_id B,
               oi_quantity_ml = b_quantity_ml B, oi_unit_price = b_price_per_unit B,
               oi_subtotal = b_price_per_unit B\<rparr>] \<and>
           payments d' = payments d @
             [\<lparr>p_payment_id = next_payment_id (autoinc d), p_order_id = oid,
               p_amount = b_price_per_unit B, p_method = Bank_transfer, p_status = Pending,
               p_txn_ref = None, p_created_at = clock e PO_insert_payment\<rparr>] \<and>
           inventory_batches d' =
             map (\<lambda>b. if b_batch_id b = b_batch_id B then b\<lparr>b_status := Reserved\<rparr> else b)
               (inventory_batches d) \<and>
           select_batch (b_batch_id B) d' = Some (B\<lparr>b_status := Reserved\<rparr>) \<and>
           blood_types d' = blood_types d \<and> retailers d' = retailers d \<and>
           donors d' = donors d \<and> donations d' = donations d"
proof -
  from assms obtain B where B: "select_batch (to_number batch_id) d = Some B"
    by (auto simp: place_order_def split: if_splits option.splits)
  have id: "b_batch_id B = to_number batch_id" using B by (rule select_batch_id)
  from assms B have av: "b_status B = Available"
    by (auto simp: place_order_def split: if_splits)
  from assms B av have d': "d' = update_batch_status Reserved (to_number batch_id)
       (insert_payment (clock e PO_insert_payment) (next_order_id (autoinc d)) (b_price_per_unit B) Bank_transfer Pending
         (insert_order_item (next_order_id (autoinc d)) (b_batch_id B) (b_blood_type_id B)
              (b_quantity_ml B) (b_price_per_unit B) (b_price_per_unit B)
           (insert_order (clock e PO_insert_order) customer (b_retailer_id B) (b_price_per_unit B) Placed notes d)))"
    and oid: "oid = next_order_id (autoinc d)"
    by (auto simp: place_order_def Let_def split: if_splits)
  have sel: "select_batch (b_batch_id B) d' = Some (B\<lparr>b_status := Reserved\<rparr>)"
    using B by (simp add: d' id select_batch_def update_batch_status_def insert_payment_def
        insert_order_item_def insert_order_def find_map_status)
  have rows: "orders d' = orders d @
             [\<lparr>o_order_id = oid, o_customer_id = customer, o_retailer_id = Some (b_retailer_id B),
               o_total_amount = b_price_per_unit B, o_currency = ''INR'', o_status = Placed,
               o_placed_at = clock e PO_insert_order, o_modified_at = None, o_notes = notes\<rparr>]"
    "order_items d' = order_items d @
             [\<lparr>oi_order_item_id = next_order_item_id (autoinc d), oi_order_id = oid,
               oi_batch_id = b_batch_id B, oi_blood_type_id = b_blood_type_id B,
               oi_quantity_ml = b_quantity_ml B, oi_unit_price = b_price_per_unit B,
               oi_subtotal = b_price_per_unit B\<rparr>]"
    "payments d' = payments d @
             [\<lparr>p_payment_id = next_payment_id (autoinc d), p_order_id = oid,
               p_amount = b_price_per_unit B, p_method = Bank_transfer, p_status = Pending,
               p_txn_ref = None, p_created_at = clock e PO_insert_payment\<rparr>]"
    by (simp_all add: d' oid update_batch_status_def insert_payment_def insert_order_item_def
        insert_order_def)
  have batches: "inventory_batches d' =
             map (\<lambda>b. if b_batch_id b = b_batch_id B then b\<lparr>b_status := Reserved\<rparr> else b)
               (inventory_batches d)"
    by (simp add: d' id update_batch_status_def insert_payment_def insert_order_item_def
        insert_order_def)
  have others: "blood_types d' = blood_types d" "retailers d' = retailers d"
    "donors d' = donors d" "donations d' = donations d"
    by (simp_all add: d' update_batch_status_def insert_payment_def insert_order_item_def
        insert_order_def)
  from B av oid rows batches sel others show ?thesis by blast
qed

theorem place_order_success_witness:
  "place_order (quiet 100) shop 5 ''7'' ''urgent'' = (Order_placed 1, sold) \<and>
   orders sold = orders shop @ [order1] \<and> order_items sold = order_items shop @ [item1] \<and>
   payments sold = payments shop @ [payment1] \<and>
   select_batch 7 sold = Some (batch7\<lparr>b_status := Reserved\<rparr>)"
proof -
  have run: "place_order (quiet 100) shop 5 ''7'' ''urgent'' = (Order_placed 1, sold)"
    by (simp add: example_defs place_defs input_defs)
  have b: "select_batch (to_number ''7'') shop = Some batch7"
    by (simp add: select_batch_def input_defs shop_def batch7_def batch8_def)
  from place_order_success [OF run] b
  have "orders sold = orders shop @ [order1] \<and> order_items sold = order_items shop @ [item1] \<and>
        payments sold = payments shop @ [payment1] \<and>
        select_batch 7 sold = Some (batch7\<lparr>b_status := Reserved\<rparr>)"
    by (auto simp: example_defs)
  with run show ?thesis by simp
qed

text \<open>
  A placement does succeed when the batch is available and no call raises.
\<close>

lemma place_order_succeeds:
  assumes "isdigit batch_id" and "select_batch (to_number batch_id) d = Some B"
    and "b_status B = Available"
    and "\<not> raises e PO_connect" "\<not> raises e PO_select_batch" "\<not> raises e PO_insert_order"
      "\<not> raises e PO_insert_item" "\<not> raises e PO_insert_payment" "\<not> raises e PO_update_batch"
      "\<not> raises e PO_commit"
  shows "fst (place_order e d customer batch_id notes) = Order_placed (next_order_id (autoinc d))"
  using assms by (simp add: place_order_def isdigit_def Let_def)

text \<open>
  C3. If one of the four writes, or the commit, raises, the attempt does not succeed; and
  an attempt that does not succeed leaves every table as it was: no order, no order item
  and no payment is added and no batch changes, so the batch is still \<open>Available\<close>.
\<close>

theorem place_order_atomic:
  "(raises e PO_insert_order \<or> raises e PO_insert_item \<or> raises e PO_insert_payment \<or>
    raises e PO_update_batch \<or> raises e PO_commit
      \<longrightarrow> (\<forall>oid. fst (place_order e d customer batch_id notes) \<noteq> Order_placed oid)) \<and>
   ((\<forall>oid. fst (place_order e d customer batch_id notes) \<noteq> Order_placed oid)
      \<longrightarrow> (let d' = snd (place_order e d customer batch_id notes)
           in orders d' = orders d \<and> order_items d' = order_items d \<and> payments d' = payments d \<and>
              inventory_batches d' = inventory_batches d \<and> same_rows d d'))"
  by (auto simp: place_order_def Let_def rollback_def same_rows_def split: option.splits)

theorem place_order_atomic_witness:
  "raises (failing PO_insert_payment 100) PO_insert_payment \<and>
   fst (place_order (failing PO_insert_payment 100) shop 5 ''7'' ''urgent'') = PersistenceError \<and>
   (let d' = snd (place_order (failing PO_insert_payment 100) shop 5 ''7'' ''urgent'')
    in orders d' = [] \<and> order_items d' = [] \<and> payments d' = [] \<and>
       inventory_batches d' = [batch7, batch8] \<and> b_status batch7 = Available)"
proof -
  have r: "raises (failing PO_insert_payment 100) PO_insert_payment"
    by (simp add: failing_def)
  have f: "fst (place_order (failing PO_insert_payment 100) shop 5 ''7'' ''urgent'') = PersistenceError"
    by (simp add: example_defs place_defs input_defs)
  then have n: "\<forall>oid. fst (place_order (failing PO_insert_payment 100) shop 5 ''7'' ''urgent'')
                  \<noteq> Order_placed oid"
    by simp
  from place_order_atomic [of "failing PO_insert_payment 100" shop 5 "''7''" "''urgent''"] n
  have "let d' = snd (place_order (failing PO_insert_payment 100) shop 5 ''7'' ''urgent'')
        in orders d' = orders shop \<and> order_items d' = order_items shop \<and>
           payments d' = payments shop \<and> inventory_batches d' = inventory_batches shop"
    by (simp add: Let_def)
  then have "let d' = snd (place_order (failing PO_insert_payment 100) shop 5 ''7'' ''urgent'')
        in orders d' = [] \<and> order_items d' = [] \<and> payments d' = [] \<and>
           inventory_batches d' = [batch7, batch8]"
    by (simp add: Let_def shop_def)
  with r f show ?thesis by (simp add: Let_def batch7_def)
qed

end
